theory Spec2Isabelle
  imports Complex_Main
begin

section \<open>Data model\<close>

text \<open>
  The notebook \<^verbatim>\<open>Lane_Notebook.ipynb\<close> holds three functions,
  \<^verbatim>\<open>prepare_out_blend_frame\<close>, \<^verbatim>\<open>compute_offset_from_center\<close> and
  \<^verbatim>\<open>process_pipeline\<close>, and three module-level globals. Numbers that numpy
  holds as floating-point values are modelled as real numbers with one extra value for
  \<^verbatim>\<open>nan\<close>; rounding and overflow are not modelled.
\<close>

datatype py_error = ValueError | IndexError

datatype np_float = NaN | Fin real

text \<open>Arithmetic on numpy floats: \<^verbatim>\<open>nan\<close> is absorbing.\<close>

fun np_sub :: "np_float \<Rightarrow> np_float \<Rightarrow> np_float" where
  "np_sub (Fin a) (Fin b) = Fin (a - b)"
| "np_sub _ _ = NaN"

fun np_add :: "np_float \<Rightarrow> np_float \<Rightarrow> np_float" where
  "np_add (Fin a) (Fin b) = Fin (a + b)"
| "np_add _ _ = NaN"

fun np_div :: "np_float \<Rightarrow> real \<Rightarrow> np_float" where
  "np_div (Fin a) d = Fin (a / d)"
| "np_div NaN d = NaN"

fun np_abs :: "np_float \<Rightarrow> np_float" where
  "np_abs (Fin a) = Fin \<bar>a\<bar>"
| "np_abs NaN = NaN"

fun np_scale :: "real \<Rightarrow> np_float \<Rightarrow> np_float" where
  "np_scale c (Fin a) = Fin (c * a)"
| "np_scale c NaN = NaN"

text \<open>
  \<^verbatim>\<open>a.max()\<close> of a one-dimensional array: raises \<^verbatim>\<open>ValueError\<close> on an empty
  array.
\<close>

fun np_max :: "real list \<Rightarrow> py_error + real" where
  "np_max [] = Inl ValueError"
| "np_max (y # ys) = Inr (fold max ys y)"

text \<open>
  \<^verbatim>\<open>a[mask]\<close> with a boolean mask: raises \<^verbatim>\<open>IndexError\<close> when the mask and
  the array differ in length, and otherwise copies the entries whose mask bit is set.
\<close>

definition np_select :: "real list \<Rightarrow> bool list \<Rightarrow> py_error + real list" where
  "np_select a sel =
     (if length sel \<noteq> length a then Inl IndexError
      else Inr (map fst (filter snd (zip a sel))))"

text \<open>
  \<^verbatim>\<open>np.mean\<close> of a one-dimensional array: \<^verbatim>\<open>nan\<close> (with a warning, no
  exception) on an empty array.
\<close>

definition np_mean :: "real list \<Rightarrow> np_float" where
  "np_mean a = (if a = [] then NaN else Fin (sum_list a / real (length a)))"

text \<open>
  Modelled from the spec: the class \<^verbatim>\<open>Line\<close> of \<^verbatim>\<open>line_utils\<close> is imported
  by the notebook and is not part of it. The record has the fields the spec's LineModel
  lists (section 3): the detection flag, the bounded history of fits with its buffer
  size, the pixel coordinates of the most recent frame, and the curvature radius. The
  notebook reads \<^verbatim>\<open>detected\<close>, \<^verbatim>\<open>all_x\<close>, \<^verbatim>\<open>all_y\<close> and
  \<^verbatim>\<open>curvature_meter\<close>.
\<close>

type_synonym coeffs = "real \<times> real \<times> real"

record FitCoefficients =
  fit_pixel :: coeffs
  fit_meter :: coeffs

record Line =
  detected :: bool
  buffer_len :: nat
  history :: "FitCoefficients list"
  all_x :: "real list"
  all_y :: "real list"
  curvature_meter :: real

text \<open>A non-empty pixel set: one x for every y, and at least one pixel.\<close>

definition pixel_set_ok :: "Line \<Rightarrow> bool" where
  "pixel_set_ok line \<longleftrightarrow> all_y line \<noteq> [] \<and> length (all_x line) = length (all_y line)"

section \<open>The offset estimator\<close>

text \<open>
  The expression \<^verbatim>\<open>np.mean(line.all_x[line.all_y > 0.95 * line.all_y.max()])\<close>,
  which the source evaluates once for each line. The maximum is taken first, then the
  mask is built and applied, then the mean.
\<close>

definition bottom_pixels :: "Line \<Rightarrow> py_error + real list" where
  "bottom_pixels line =
     (case np_max (all_y line) of
        Inl e \<Rightarrow> Inl e
      | Inr m \<Rightarrow> np_select (all_x line) (map (\<lambda>y. y > 0.95 * m) (all_y line)))"

definition line_bottom :: "Line \<Rightarrow> py_error + np_float" where
  "line_bottom line =
     (case bottom_pixels line of Inl e \<Rightarrow> Inl e | Inr sel \<Rightarrow> Inr (np_mean sel))"

text \<open>
  \<^verbatim>\<open>compute_offset_from_center(line_lt, line_rt, frame_width)\<close>. The scale factor
  \<^verbatim>\<open>xm_per_pix\<close> is imported from \<^verbatim>\<open>globals\<close>, which is not part of the
  notebook, and is the first parameter here.
\<close>

definition compute_offset_from_center ::
    "real \<Rightarrow> Line \<Rightarrow> Line \<Rightarrow> real \<Rightarrow> py_error + np_float" where
  "compute_offset_from_center xm_per_pix line_lt line_rt frame_width =
     (if detected line_lt \<and> detected line_rt then
        (case line_bottom line_lt of
           Inl e \<Rightarrow> Inl e
         | Inr line_lt_bottom \<Rightarrow>
            (case line_bottom line_rt of
               Inl e \<Rightarrow> Inl e
             | Inr line_rt_bottom \<Rightarrow>
                (let lane_width = np_sub line_rt_bottom line_lt_bottom;
                     midpoint = frame_width / 2;
                     offset_pix = np_abs (np_sub (np_add line_lt_bottom (np_div lane_width 2))
                                                 (Fin midpoint));
                     offset_meter = np_scale xm_per_pix offset_pix
                 in Inr offset_meter)))
      else Inr (Fin (- 1)))"

section \<open>The renderer\<close>

text \<open>
  An image is its shape and its contents; the contents are opaque here, since every
  pixel operation belongs to OpenCV and numpy.
\<close>

record 'px image =
  height :: nat
  width :: nat
  pixels :: 'px

text \<open>
  The drawing calls of \<^verbatim>\<open>prepare_out_blend_frame\<close>, in the order the source
  makes them. They are recorded, not executed: whether OpenCV and numpy accept the
  shapes they are given is outside the model.
  \<^item> \<open>ShadeHeader\<close>: \<^verbatim>\<open>cv2.rectangle\<close> on a copy, from the origin to the given
    corner, blended back with \<^verbatim>\<open>cv2.addWeighted\<close>.
  \<^item> \<open>PasteThumb\<close>: an image resized to \<^verbatim>\<open>dsize\<close> (width, height) and assigned
    to the slice with the given row range and column range; the flag says that the
    resized image is stacked to three channels and multiplied by 255 first.
  \<^item> \<open>PutText\<close>: \<^verbatim>\<open>cv2.putText\<close> with the format string, the number it
    formats, and the text origin.
\<close>

datatype 'px draw_op =
    ShadeHeader "nat \<times> nat"
  | PasteThumb "'px image" bool "nat \<times> nat" "nat \<times> nat" "nat \<times> nat"
  | PutText string np_float "nat \<times> nat"

record 'px out_frame =
  canvas :: "'px image"
  overlay :: "'px draw_op list"

definition prepare_out_blend_frame ::
    "'px image \<Rightarrow> 'px image \<Rightarrow> 'px image \<Rightarrow> 'px image \<Rightarrow> Line \<Rightarrow> Line \<Rightarrow> np_float
       \<Rightarrow> 'px out_frame" where
  "prepare_out_blend_frame blend_on_road img_binary img_birdeye img_fit line_lt line_rt
       offset_meter =
     (let h = height blend_on_road;
          w = width blend_on_road;
          thumb_ratio = 0.2 :: real;
          thumb_h = nat \<lfloor>thumb_ratio * real h\<rfloor>;
          thumb_w = nat \<lfloor>thumb_ratio * real w\<rfloor>;
          off_x = 20;
          off_y = 15;
          mean_curvature_meter = np_mean [curvature_meter line_lt, curvature_meter line_rt]
      in \<lparr>canvas = blend_on_road,
          overlay =
            [ShadeHeader (w, thumb_h + 2 * off_y),
             PasteThumb img_binary True (thumb_w, thumb_h)
               (off_y, thumb_h + off_y) (off_x, off_x + thumb_w),
             PasteThumb img_birdeye True (thumb_w, thumb_h)
               (off_y, thumb_h + off_y) (2 * off_x + thumb_w, 2 * (off_x + thumb_w)),
             PasteThumb img_fit False (thumb_w, thumb_h)
               (off_y, thumb_h + off_y) (3 * off_x + 2 * thumb_w, 3 * (off_x + thumb_w)),
             PutText ''Curvature radius: {:.02f}m'' mean_curvature_meter (860, 60),
             PutText ''Offset from center: {:.02f}m'' offset_meter (860, 130)]\<rparr>)"

text \<open>The numbers that the output frame shows after a given format string.\<close>

fun reported :: "string \<Rightarrow> 'px draw_op list \<Rightarrow> np_float list" where
  "reported label [] = []"
| "reported label (PutText fmt v org # ops) =
     (if fmt = label then v # reported label ops else reported label ops)"
| "reported label (_ # ops) = reported label ops"

section \<open>The orchestrator\<close>

text \<open>The three module-level globals of the notebook.\<close>

record session =
  line_lt :: Line
  line_rt :: Line
  processed_frames :: nat

text \<open>
  The functions and constants the notebook imports and does not define: the calibration
  result \<^verbatim>\<open>mtx\<close>, \<^verbatim>\<open>dist\<close>, the scale factor, and the collaborators of
  \<^verbatim>\<open>calibration_utils\<close>, \<^verbatim>\<open>binarization_utils\<close>, \<^verbatim>\<open>perspective_utils\<close>
  and \<^verbatim>\<open>line_utils\<close>. They are parameters of the model. The two searches return
  the two lines as they leave them, together with the annotated bird's-eye image.
\<close>

record ('px, 'mat, 'cal) collaborators =
  mtx :: 'cal
  dist :: 'cal
  xm_per_pix :: real
  undistort :: "'px image \<Rightarrow> 'cal \<Rightarrow> 'cal \<Rightarrow> 'px image"
  binarize :: "'px image \<Rightarrow> 'px image"
  birdeye :: "'px image \<Rightarrow> 'px image \<times> 'mat \<times> 'mat"
  get_fits_by_previous_fits :: "'px image \<Rightarrow> Line \<Rightarrow> Line \<Rightarrow> Line \<times> Line \<times> 'px image"
  get_fits_by_sliding_windows ::
    "'px image \<Rightarrow> Line \<Rightarrow> Line \<Rightarrow> nat \<Rightarrow> Line \<times> Line \<times> 'px image"
  draw_back_onto_the_road :: "'px image \<Rightarrow> 'mat \<Rightarrow> Line \<Rightarrow> Line \<Rightarrow> bool \<Rightarrow> 'px image"

text \<open>
  The estimator and the renderer are handed the two line objects of the session by
  reference. In state-passing form a call returns its value together with the session
  as the call leaves it; neither function assigns to an attribute of a line or to the
  counter.
\<close>

definition call_compute_offset_from_center ::
    "real \<Rightarrow> real \<Rightarrow> session \<Rightarrow> (py_error + np_float) \<times> session" where
  "call_compute_offset_from_center xm frame_width s =
     (compute_offset_from_center xm (line_lt s) (line_rt s) frame_width, s)"

definition call_prepare_out_blend_frame ::
    "'px image \<Rightarrow> 'px image \<Rightarrow> 'px image \<Rightarrow> 'px image \<Rightarrow> np_float \<Rightarrow> session
       \<Rightarrow> 'px out_frame \<times> session" where
  "call_prepare_out_blend_frame blend_on_road img_binary img_birdeye img_fit offset_meter s =
     (prepare_out_blend_frame blend_on_road img_binary img_birdeye img_fit
        (line_lt s) (line_rt s) offset_meter, s)"

text \<open>Which of the two searches a call of the pipeline ran (a record of the call made).\<close>

datatype search = PriorFit | SlidingWindow nat

text \<open>
  \<^verbatim>\<open>process_pipeline(frame, keep_state)\<close>. The result is the returned blend or
  the exception that left the function, the session as the call leaves it, and the
  search that was run. An exception of \<^verbatim>\<open>compute_offset_from_center\<close> leaves the
  function after the two lines were rebound and before the counter is incremented. The
  imported collaborators are taken to return.
\<close>

definition process_pipeline ::
    "('px, 'mat, 'cal) collaborators \<Rightarrow> 'px image \<Rightarrow> bool \<Rightarrow> session
       \<Rightarrow> (py_error + 'px out_frame) \<times> session \<times> search" where
  "process_pipeline env frame keep_state s =
     (let img_undistorted = undistort env frame (mtx env) (dist env);
          img_binary = binarize env img_undistorted;
          (img_birdeye, M, Minv) = birdeye env img_binary;
          (ran, lt, rt, img_fit) =
            (if processed_frames s > 0 \<and> keep_state \<and> detected (line_lt s)
                  \<and> detected (line_rt s)
             then (PriorFit,
                   get_fits_by_previous_fits env img_birdeye (line_lt s) (line_rt s))
             else (SlidingWindow 9,
                   get_fits_by_sliding_windows env img_birdeye (line_lt s) (line_rt s) 9));
          s1 = s\<lparr>line_lt := lt, line_rt := rt\<rparr>;
          (offset, s2) =
            call_compute_offset_from_center (xm_per_pix env) (real (width frame)) s1
      in case offset of
           Inl e \<Rightarrow> (Inl e, s2, ran)
         | Inr offset_meter \<Rightarrow>
             (let blend_on_road =
                    draw_back_onto_the_road env img_undistorted Minv (line_lt s2) (line_rt s2)
                      keep_state;
                  (blend_output, s3) =
                    call_prepare_out_blend_frame blend_on_road img_binary img_birdeye img_fit
                      offset_meter s2
              in (Inr blend_output, s3\<lparr>processed_frames := processed_frames s3 + 1\<rparr>, ran)))"

text \<open>
  What the search of a call returns: the bird's-eye view of the binarized, undistorted
  frame, handed with the session's two lines to the search the call selects.
\<close>

definition located ::
    "('px, 'mat, 'cal) collaborators \<Rightarrow> 'px image \<Rightarrow> bool \<Rightarrow> session
       \<Rightarrow> Line \<times> Line \<times> 'px image" where
  "located env frame keep_state s =
     (let img_birdeye = fst (birdeye env (binarize env (undistort env frame (mtx env) (dist env))))
      in if processed_frames s > 0 \<and> keep_state \<and> detected (line_lt s) \<and> detected (line_rt s)
         then get_fits_by_previous_fits env img_birdeye (line_lt s) (line_rt s)
         else get_fits_by_sliding_windows env img_birdeye (line_lt s) (line_rt s) 9)"


section \<open>The orchestrator over collaborators with several possible outcomes\<close>






section \<open>The line model's bounded history\<close>

text \<open>
  Modelled from the spec: the methods of \<^verbatim>\<open>Line\<close> are in \<^verbatim>\<open>line_utils\<close>, which
  is not part of the notebook. Section 4.1 of the spec: \<^verbatim>\<open>update\<close> appends the fit
  to the history, evicting the oldest entries while the history is over its buffer
  size, replaces the stored pixel coordinates and sets the flag; \<^verbatim>\<open>mark_undetected\<close>
  clears the flag and leaves everything else. A line is created with a fixed buffer size
  and an empty history; the spec does not fix the curvature of a line that has seen no
  frame, and \<open>new_line\<close> takes 0.
\<close>

definition push_fit :: "nat \<Rightarrow> FitCoefficients list \<Rightarrow> FitCoefficients \<Rightarrow> FitCoefficients list" where
  "push_fit k h f = (let h' = h @ [f] in drop (length h' - k) h')"

definition update :: "real list \<Rightarrow> real list \<Rightarrow> FitCoefficients \<Rightarrow> Line \<Rightarrow> Line" where
  "update pixel_x pixel_y fit line =
     line\<lparr>history := push_fit (buffer_len line) (history line) fit,
          all_x := pixel_x, all_y := pixel_y, detected := True\<rparr>"

definition mark_undetected :: "Line \<Rightarrow> Line" where
  "mark_undetected line = line\<lparr>detected := False\<rparr>"

definition new_line :: "nat \<Rightarrow> Line" where
  "new_line k = \<lparr>detected = False, buffer_len = k, history = [], all_x = [], all_y = [],
                 curvature_meter = 0\<rparr>"

datatype line_op = Update "real list" "real list" FitCoefficients | MarkUndetected

fun apply_line_op :: "line_op \<Rightarrow> Line \<Rightarrow> Line" where
  "apply_line_op (Update px py f) line = update px py f line"
| "apply_line_op MarkUndetected line = mark_undetected line"

text \<open>The fits that a sequence of operations inserts, oldest first.\<close>

fun fits_of :: "line_op list \<Rightarrow> FitCoefficients list" where
  "fits_of [] = []"
| "fits_of (Update px py f # ops) = f # fits_of ops"
| "fits_of (MarkUndetected # ops) = fits_of ops"

section \<open>The offset procedure in the spec's words\<close>

text \<open>
  Section 4.4 of the spec: for each line, the mean x of the pixel coordinates whose y
  exceeds 95% of that line's maximum y; the lane width is the right bottom x minus the
  left one, the lane midpoint the left bottom x plus half the width, the offset in pixels
  the distance of the midpoint from half the frame width, converted by the x scale
  factor. The pixels are addressed by their index; the mean of no pixels is not a number.
\<close>

definition bottom_index_set :: "Line \<Rightarrow> nat set" where
  "bottom_index_set line =
     Set.filter (\<lambda>i. all_y line ! i > 0.95 * Max (set (all_y line))) {..<length (all_y line)}"

definition spec_bottom_x :: "Line \<Rightarrow> np_float" where
  "spec_bottom_x line =
     (let I = bottom_index_set line
      in if I = {} then NaN else Fin ((\<Sum>i\<in>I. all_x line ! i) / real (card I)))"

definition spec_offset :: "real \<Rightarrow> Line \<Rightarrow> Line \<Rightarrow> real \<Rightarrow> np_float" where
  "spec_offset xm left right frame_width =
     (case (spec_bottom_x left, spec_bottom_x right) of
        (Fin l, Fin r) \<Rightarrow> Fin (xm * \<bar>(l + (r - l) / 2) - frame_width / 2\<bar>)
      | _ \<Rightarrow> NaN)"


section \<open>Sample inputs\<close>

definition sample_lt :: Line where
  "sample_lt = \<lparr>detected = True, buffer_len = 3, history = [],
                all_x = [300, 310, 320], all_y = [100, 700, 719], curvature_meter = 1000\<rparr>"

definition sample_rt :: Line where
  "sample_rt = \<lparr>detected = True, buffer_len = 3, history = [],
                all_x = [900, 950, 970], all_y = [50, 700, 710], curvature_meter = 1200\<rparr>"

definition sample_frame :: "unit image" where
  "sample_frame = \<lparr>height = 720, width = 1280, pixels = ()\<rparr>"

text \<open>
  Stand-ins for the imported collaborators: the image operations pass the image on, the
  sliding-window search finds the two sample lines, and the prior-fit search keeps the
  lines it is given.
\<close>

definition sample_env :: "(unit, unit, unit) collaborators" where
  "sample_env =
     \<lparr>mtx = (), dist = (), xm_per_pix = 37 / 7000,
      undistort = (\<lambda>img m d. img),
      binarize = (\<lambda>img. img),
      birdeye = (\<lambda>img. (img, (), ())),
      get_fits_by_previous_fits = (\<lambda>img l r. (l, r, img)),
      get_fits_by_sliding_windows = (\<lambda>img l r n. (sample_lt, sample_rt, img)),
      draw_back_onto_the_road = (\<lambda>img m l r keep. img)\<rparr>"

definition fresh_session :: session where
  "fresh_session = \<lparr>line_lt = new_line 3, line_rt = new_line 3, processed_frames = 0\<rparr>"

definition tracking_session :: session where
  "tracking_session = \<lparr>line_lt = sample_lt, line_rt = sample_rt, processed_frames = 1\<rparr>"

definition fit_a :: FitCoefficients where
  "fit_a = \<lparr>fit_pixel = (0, 0, 300), fit_meter = (0, 0, 1)\<rparr>"
definition fit_b :: FitCoefficients where
  "fit_b = \<lparr>fit_pixel = (0, 0, 310), fit_meter = (0, 0, 2)\<rparr>"
definition fit_c :: FitCoefficients where
  "fit_c = \<lparr>fit_pixel = (0, 0, 320), fit_meter = (0, 0, 3)\<rparr>"

section \<open>Properties of the offset estimator\<close>

lemma np_max_eq: "ys \<noteq> [] \<Longrightarrow> np_max ys = Inr (Max (set ys))"
proof (cases ys)
  case Nil
  assume "ys \<noteq> []"
  with Nil show ?thesis by simp
next
  case (Cons y rest)
  then show ?thesis using Max.set_eq_fold [of y rest] by simp
qed

lemma select_map:
  "length a = length ys \<Longrightarrow>
   map fst (filter snd (zip a (map P ys))) = map fst (filter (\<lambda>p. P (snd p)) (zip a ys))"
  by (induction a ys rule: list_induct2) auto

lemma bottom_pixels_ok:
  assumes "pixel_set_ok line"
  shows "bottom_pixels line =
           Inr (map fst (filter (\<lambda>p. snd p > 0.95 * Max (set (all_y line)))
                                (zip (all_x line) (all_y line))))"
  using assms
  by (simp add: bottom_pixels_def pixel_set_ok_def np_max_eq np_select_def select_map)

lemma bottom_indices_snoc:
  "Set.filter (\<lambda>i. P ((ys @ [y]) ! i)) {..<length (ys @ [y])} =
   Set.filter (\<lambda>i. P (ys ! i)) {..<length ys} \<union> (if P y then {length ys} else {})"
  by (auto simp: nth_append less_Suc_eq)

lemma sum_list_selected:
  fixes a :: "real list"
  shows "length a = length ys \<Longrightarrow>
   sum_list (map fst (filter (\<lambda>p. P (snd p)) (zip a ys))) =
   (\<Sum>i\<in>Set.filter (\<lambda>i. P (ys ! i)) {..<length ys}. a ! i)"
proof (induction a ys rule: rev_induct2)
  case (4 x xs y ys)
  then have len: "length xs = length ys" by simp
  define S where "S = Set.filter (\<lambda>i. P (ys ! i)) {..<length ys}"
  have fin: "finite S" and notin: "length ys \<notin> S" and below: "\<And>i. i \<in> S \<Longrightarrow> i < length xs"
    using len by (simp_all add: S_def)
  have ih: "sum_list (map fst (filter (\<lambda>p. P (snd p)) (zip xs ys))) = (\<Sum>i\<in>S. xs ! i)"
    using 4 len by (simp add: S_def)
  have old: "(\<Sum>i\<in>S. (xs @ [x]) ! i) = (\<Sum>i\<in>S. xs ! i)"
    by (rule sum.cong) (simp_all add: nth_append below)
  have last: "(xs @ [x]) ! length ys = x"
    using len by (simp add: nth_append)
  have rhs: "(\<Sum>i\<in>S \<union> (if P y then {length ys} else {}). (xs @ [x]) ! i) =
             (\<Sum>i\<in>S. xs ! i) + (if P y then x else 0)"
    using fin notin by (simp add: old last)
  have lhs: "sum_list (map fst (filter (\<lambda>p. P (snd p)) (zip (xs @ [x]) (ys @ [y])))) =
             (\<Sum>i\<in>S. xs ! i) + (if P y then x else 0)"
    using len ih by simp
  show ?case
    unfolding bottom_indices_snoc S_def [symmetric] lhs rhs ..
qed simp_all

lemma length_selected:
  "length a = length ys \<Longrightarrow>
   length (map fst (filter (\<lambda>p. P (snd p)) (zip a ys))) =
   card (Set.filter (\<lambda>i. P (ys ! i)) {..<length ys})"
proof (induction a ys rule: rev_induct2)
  case (4 x xs y ys)
  then have len: "length xs = length ys" by simp
  define S where "S = Set.filter (\<lambda>i. P (ys ! i)) {..<length ys}"
  have fin: "finite S" and notin: "length ys \<notin> S"
    by (simp_all add: S_def)
  have ih: "length (map fst (filter (\<lambda>p. P (snd p)) (zip xs ys))) = card S"
    using 4 len by (simp add: S_def)
  have rhs: "card (S \<union> (if P y then {length ys} else {})) = card S + (if P y then 1 else 0)"
    using fin notin by simp
  have lhs: "length (map fst (filter (\<lambda>p. P (snd p)) (zip (xs @ [x]) (ys @ [y])))) =
             card S + (if P y then 1 else 0)"
    using len ih by simp
  show ?case
    unfolding bottom_indices_snoc S_def [symmetric] lhs rhs ..
qed simp_all

lemma line_bottom_spec:
  assumes "pixel_set_ok line"
  shows "line_bottom line = Inr (spec_bottom_x line)"
proof -
  let ?P = "\<lambda>y. y > 0.95 * Max (set (all_y line))"
  let ?sel = "map fst (filter (\<lambda>p. ?P (snd p)) (zip (all_x line) (all_y line)))"
  have len: "length (all_x line) = length (all_y line)"
    using assms by (simp add: pixel_set_ok_def)
  have s: "sum_list ?sel = (\<Sum>i\<in>bottom_index_set line. all_x line ! i)"
    unfolding bottom_index_set_def by (rule sum_list_selected [OF len])
  have c: "length ?sel = card (bottom_index_set line)"
    unfolding bottom_index_set_def by (rule length_selected [OF len])
  have fin: "finite (bottom_index_set line)"
    by (simp add: bottom_index_set_def)
  have e: "?sel = [] \<longleftrightarrow> bottom_index_set line = {}"
    using c fin by (metis card_0_eq length_0_conv)
  have "np_mean ?sel = spec_bottom_x line"
    unfolding np_mean_def spec_bottom_x_def Let_def s c e ..
  then show ?thesis
    by (simp add: line_bottom_def bottom_pixels_ok [OF assms])
qed

lemma sample_lt_bottom: "line_bottom sample_lt = Inr (Fin 315)"
  by (simp add: line_bottom_def bottom_pixels_def sample_lt_def np_select_def np_mean_def)

lemma sample_rt_bottom: "line_bottom sample_rt = Inr (Fin 960)"
  by (simp add: line_bottom_def bottom_pixels_def sample_rt_def np_select_def np_mean_def)

lemma sample_offset:
  "compute_offset_from_center (37 / 7000) sample_lt sample_rt 1280 = Inr (Fin (37 / 2800))"
  by (simp add: compute_offset_from_center_def sample_lt_bottom sample_rt_bottom)
     (simp add: sample_lt_def sample_rt_def)

text \<open>
  Two detected lines whose pixels all lie in row 0: no y is strictly above 95% of the
  maximum, the selections are empty, and the result is \<^verbatim>\<open>nan\<close>, not an exception.
\<close>

lemma offset_nan_in_top_row:
  "compute_offset_from_center (37 / 7000)
     (sample_lt\<lparr>all_y := [0, 0, 0]\<rparr>) (sample_rt\<lparr>all_y := [0, 0, 0]\<rparr>) 1280 = Inr NaN"
  by (simp add: compute_offset_from_center_def line_bottom_def bottom_pixels_def
      sample_lt_def sample_rt_def np_select_def np_mean_def)

text \<open>
  The maximum of an empty array raises: a line flagged detected with no pixels makes
  the call fail with \<^verbatim>\<open>ValueError\<close>.
\<close>

lemma offset_raises_on_empty_pixels:
  "compute_offset_from_center (37 / 7000)
     (sample_lt\<lparr>all_x := [], all_y := []\<rparr>) sample_rt 1280 = Inl ValueError"
  by (simp add: compute_offset_from_center_def line_bottom_def bottom_pixels_def
      sample_lt_def sample_rt_def)

text \<open>
  C1. Whenever the detected flag of either line is false,
  \<^verbatim>\<open>compute_offset_from_center\<close> returns the sentinel \<open>-1\<close> as a value (no
  exception), whatever the pixel arrays and the frame width are; hence any result other
  than the returned sentinel (a computed offset, \<^verbatim>\<open>nan\<close>, or an exception) can
  only come from a call in which both flags are true.
\<close>

theorem offset_sentinel_when_undetected:
  "(\<not> detected l \<or> \<not> detected r \<longrightarrow>
      compute_offset_from_center xm l r w = Inr (Fin (- 1))) \<and>
   (compute_offset_from_center xm l r w \<noteq> Inr (Fin (- 1)) \<longrightarrow>
      detected l \<and> detected r)"
  by (simp add: compute_offset_from_center_def)

theorem offset_sentinel_when_undetected_witness:
  "\<not> detected (sample_lt\<lparr>detected := False\<rparr>) \<and>
   compute_offset_from_center (37 / 7000) (sample_lt\<lparr>detected := False\<rparr>) sample_rt 1280
     = Inr (Fin (- 1)) \<and>
   compute_offset_from_center (37 / 7000) sample_lt sample_rt 1280 \<noteq> Inr (Fin (- 1)) \<and>
   detected sample_lt \<and> detected sample_rt"
proof -
  have u: "\<not> detected (sample_lt\<lparr>detected := False\<rparr>)"
    by simp
  have c: "compute_offset_from_center (37 / 7000) sample_lt sample_rt 1280 \<noteq> Inr (Fin (- 1))"
    by (simp add: sample_offset)
  from u c
    offset_sentinel_when_undetected
      [of "sample_lt\<lparr>detected := False\<rparr>" sample_rt "37 / 7000" 1280]
    offset_sentinel_when_undetected [of sample_lt sample_rt "37 / 7000" 1280]
  show ?thesis by blast
qed

text \<open>
  C3. For two detected lines with non-empty pixel sets (the x and y arrays of a line
  having the same length), \<^verbatim>\<open>compute_offset_from_center\<close> returns the value of the
  spec's procedure: the scale factor times the distance between the lane midpoint
  \<open>l + (r - l) / 2\<close> and half the frame width, where \<open>l\<close> and \<open>r\<close> are the means of
  the x coordinates of the pixels whose y is strictly above 95% of the line's maximum y;
  when no pixel of a line is above that bound, both sides are \<^verbatim>\<open>nan\<close>.
\<close>

theorem offset_formula:
  assumes "detected l" and "detected r"
    and "pixel_set_ok l" and "pixel_set_ok r"
  shows "compute_offset_from_center xm l r w = Inr (spec_offset xm l r w)"
proof -
  have "np_scale xm (np_abs (np_sub (np_add a (np_div (np_sub b a) 2)) (Fin (w / 2)))) =
        (case (a, b) of
           (Fin p, Fin q) \<Rightarrow> Fin (xm * \<bar>(p + (q - p) / 2) - w / 2\<bar>)
         | _ \<Rightarrow> NaN)" for a b
    by (cases a; cases b) simp_all
  then show ?thesis
    using assms
    by (simp add: compute_offset_from_center_def line_bottom_spec spec_offset_def)
qed

theorem offset_formula_witness:
  "detected sample_lt \<and> detected sample_rt \<and> pixel_set_ok sample_lt \<and> pixel_set_ok sample_rt \<and>
   compute_offset_from_center (37 / 7000) sample_lt sample_rt 1280
     = Inr (spec_offset (37 / 7000) sample_lt sample_rt 1280) \<and>
   spec_offset (37 / 7000) sample_lt sample_rt 1280 = Fin (37 / 2800)"
proof -
  have h: "detected sample_lt" "detected sample_rt" "pixel_set_ok sample_lt"
      "pixel_set_ok sample_rt"
    by (simp_all add: sample_lt_def sample_rt_def pixel_set_ok_def)
  from offset_formula [OF h, of "37 / 7000" 1280] h sample_offset
  show ?thesis by simp
qed





lemma offset_of_bottoms:
  assumes "detected l" and "detected r"
    and "line_bottom l = Inr (Fin a)" and "line_bottom r = Inr (Fin b)"
  shows "compute_offset_from_center xm l r w = Inr (Fin (xm * \<bar>(a + b) / 2 - w / 2\<bar>))"
proof -
  have mid: "a + (b - a) / 2 - w / 2 = (a + b) / 2 - w / 2"
    by argo
  have "compute_offset_from_center xm l r w = Inr (Fin (xm * \<bar>a + (b - a) / 2 - w / 2\<bar>))"
    using assms by (simp add: compute_offset_from_center_def)
  then show ?thesis
    by (simp only: mid)
qed

lemma sample_lt_pixels: "bottom_pixels sample_lt = Inr [310, 320]"
  by (simp add: bottom_pixels_def sample_lt_def np_select_def)

lemma sample_rt_pixels: "bottom_pixels sample_rt = Inr [950, 970]"
  by (simp add: bottom_pixels_def sample_rt_def np_select_def)




text \<open>
  C10. For two detected lines whose bottom-pixel selections exist and are non-empty, and
  a non-negative scale factor, \<^verbatim>\<open>compute_offset_from_center\<close> returns a number that
  is not negative, so a computed offset is never the sentinel \<open>-1\<close>.
\<close>

theorem offset_nonnegative:
  assumes "detected l" and "detected r"
    and "bottom_pixels l = Inr sl" and "sl \<noteq> []"
    and "bottom_pixels r = Inr sr" and "sr \<noteq> []"
    and "0 \<le> xm"
  shows "\<exists>v. compute_offset_from_center xm l r w = Inr (Fin v) \<and> 0 \<le> v \<and>
             compute_offset_from_center xm l r w \<noteq> Inr (Fin (- 1))"
proof -
  obtain a b where a: "line_bottom l = Inr (Fin a)" and b: "line_bottom r = Inr (Fin b)"
    using assms(3-6) by (simp add: line_bottom_def np_mean_def)
  have v: "compute_offset_from_center xm l r w = Inr (Fin (xm * \<bar>(a + b) / 2 - w / 2\<bar>))"
    by (rule offset_of_bottoms [OF assms(1,2) a b])
  have nn: "0 \<le> xm * \<bar>(a + b) / 2 - w / 2\<bar>"
    using assms(7) by simp
  then have "xm * \<bar>(a + b) / 2 - w / 2\<bar> \<noteq> - 1" by linarith
  with v nn show ?thesis by simp
qed

theorem offset_nonnegative_witness:
  "detected sample_lt \<and> detected sample_rt \<and>
   bottom_pixels sample_lt = Inr [310, 320] \<and> [310, 320 :: real] \<noteq> [] \<and>
   bottom_pixels sample_rt = Inr [950, 970] \<and> [950, 970 :: real] \<noteq> [] \<and>
   (0 :: real) \<le> 37 / 7000 \<and>
   (\<exists>v. compute_offset_from_center (37 / 7000) sample_lt sample_rt 1280 = Inr (Fin v) \<and> 0 \<le> v \<and>
        compute_offset_from_center (37 / 7000) sample_lt sample_rt 1280 \<noteq> Inr (Fin (- 1)))"
proof -
  have h: "detected sample_lt" "detected sample_rt"
    by (simp_all add: sample_lt_def sample_rt_def)
  have n: "[310, 320 :: real] \<noteq> []" "[950, 970 :: real] \<noteq> []" "(0 :: real) \<le> 37 / 7000"
    by simp_all
  from offset_nonnegative [OF h sample_lt_pixels n(1) sample_rt_pixels n(2) n(3), of 1280]
    h sample_lt_pixels sample_rt_pixels n
  show ?thesis by blast
qed

section \<open>Properties of the renderer\<close>

text \<open>
  C5. The output frame of \<^verbatim>\<open>prepare_out_blend_frame\<close> carries exactly one
  curvature text, and the number it shows is the arithmetic mean of the two lines'
  \<^verbatim>\<open>curvature_meter\<close> values.
\<close>

theorem reported_curvature_is_mean:
  "reported ''Curvature radius: {:.02f}m''
     (overlay (prepare_out_blend_frame blend img_binary img_birdeye img_fit l r offset)) =
   [Fin ((curvature_meter l + curvature_meter r) / 2)]"
  by (simp add: prepare_out_blend_frame_def np_mean_def Let_def)

section \<open>Properties of the orchestrator\<close>

lemma pipeline_search:
  "snd (snd (process_pipeline env frame keep s)) =
     (if processed_frames s > 0 \<and> keep \<and> detected (line_lt s) \<and> detected (line_rt s)
      then PriorFit else SlidingWindow 9)"
  by (simp add: process_pipeline_def call_compute_offset_from_center_def
      call_prepare_out_blend_frame_def Let_def split: prod.splits sum.splits)

lemma pipeline_lines:
  "line_lt (fst (snd (process_pipeline env frame keep s))) = fst (located env frame keep s) \<and>
   line_rt (fst (snd (process_pipeline env frame keep s))) = fst (snd (located env frame keep s))"
  by (simp add: process_pipeline_def located_def call_compute_offset_from_center_def
      call_prepare_out_blend_frame_def Let_def split: prod.splits sum.splits)







text \<open>
  C2. A call of \<^verbatim>\<open>process_pipeline\<close> runs the prior-fit search exactly when the
  frame counter is positive, \<^verbatim>\<open>keep_state\<close> is set and both lines are flagged
  detected, and the sliding-window search (with nine windows) in every other case, in
  particular whenever \<^verbatim>\<open>keep_state\<close> is false; the lines the session holds
  afterwards are the ones the selected search returned.
\<close>

theorem search_selection:
  "(snd (snd (process_pipeline env frame keep s)) = PriorFit \<longleftrightarrow>
      processed_frames s > 0 \<and> keep \<and> detected (line_lt s) \<and> detected (line_rt s)) \<and>
   (snd (snd (process_pipeline env frame keep s)) = SlidingWindow 9 \<longleftrightarrow>
      \<not> (processed_frames s > 0 \<and> keep \<and> detected (line_lt s) \<and> detected (line_rt s))) \<and>
   snd (snd (process_pipeline env frame False s)) = SlidingWindow 9 \<and>
   (line_lt (fst (snd (process_pipeline env frame keep s))),
    line_rt (fst (snd (process_pipeline env frame keep s)))) =
     (let img_birdeye = fst (birdeye env (binarize env (undistort env frame (mtx env) (dist env))));
          found =
            (if processed_frames s > 0 \<and> keep \<and> detected (line_lt s) \<and> detected (line_rt s)
             then get_fits_by_previous_fits env img_birdeye (line_lt s) (line_rt s)
             else get_fits_by_sliding_windows env img_birdeye (line_lt s) (line_rt s) 9)
      in (fst found, fst (snd found)))"
  using pipeline_lines [of env frame keep s]
  by (simp add: pipeline_search located_def Let_def)

theorem search_selection_witness:
  "snd (snd (process_pipeline sample_env sample_frame True tracking_session)) = PriorFit \<and>
   snd (snd (process_pipeline sample_env sample_frame True fresh_session)) = SlidingWindow 9 \<and>
   snd (snd (process_pipeline sample_env sample_frame False tracking_session)) = SlidingWindow 9"
  using search_selection [of sample_env sample_frame True tracking_session]
    search_selection [of sample_env sample_frame True fresh_session]
  by (simp add: tracking_session_def fresh_session_def sample_lt_def sample_rt_def)

















section \<open>Properties of the bounded history\<close>

lemma push_fit_within_bound:
  "0 < k \<Longrightarrow> length h \<le> k \<Longrightarrow>
   push_fit k h f = (if length h = k then tl h @ [f] else h @ [f])"
  by (cases h) (auto simp: push_fit_def Let_def drop_Suc)

lemma keep_last_append:
  "drop (length (drop (length a - k) a @ b) - k) (drop (length a - k) a @ b) =
   drop (length (a @ b) - k) (a @ b)"
  by (cases "length a \<le> k") (auto simp: add.commute)

lemma run_history:
  "length (history line) \<le> buffer_len line \<Longrightarrow>
   history (fold apply_line_op ops line) =
     drop (length (history line @ fits_of ops) - buffer_len line) (history line @ fits_of ops)"
proof (induction ops arbitrary: line)
  case Nil
  then show ?case by simp
next
  case (Cons op ops)
  show ?case
  proof (cases op)
    case MarkUndetected
    then show ?thesis
      using Cons.IH [of "mark_undetected line"] Cons.prems
      by (simp add: mark_undetected_def)
  next
    case (Update px py f)
    let ?l = "update px py f line"
    have h: "history ?l = drop (length (history line @ [f]) - buffer_len line) (history line @ [f])"
      and b: "buffer_len ?l = buffer_len line"
      by (simp_all add: update_def push_fit_def Let_def)
    have "length (history ?l) \<le> buffer_len ?l"
      unfolding h b by simp
    from Cons.IH [OF this]
    have "history (fold apply_line_op ops ?l) =
            drop (length (history ?l @ fits_of ops) - buffer_len line) (history ?l @ fits_of ops)"
      by (simp only: b)
    also have "\<dots> = drop (length ((history line @ [f]) @ fits_of ops) - buffer_len line)
                        ((history line @ [f]) @ fits_of ops)"
      unfolding h by (rule keep_last_append)
    finally show ?thesis
      using Update by simp
  qed
qed

text \<open>
  C8. The history of a line created with buffer size \<open>k\<close> never has more than \<open>k\<close>
  entries, whatever sequence of \<^verbatim>\<open>update\<close> and \<^verbatim>\<open>mark_undetected\<close>
  operations it has seen; and when \<open>k + 1\<close> fits have been inserted, the history is
  these fits without the first one, in the order of insertion, so its length is exactly
  \<open>k\<close>.
\<close>

theorem history_bounded_fifo:
  "length (history (fold apply_line_op ops (new_line k))) \<le> k \<and>
   (length (fits_of ops) = k + 1 \<longrightarrow>
      history (fold apply_line_op ops (new_line k)) = tl (fits_of ops) \<and>
      length (history (fold apply_line_op ops (new_line k))) = k)"
proof -
  have h: "history (fold apply_line_op ops (new_line k)) =
             drop (length (fits_of ops) - k) (fits_of ops)"
    using run_history [of "new_line k" ops] by (simp add: new_line_def)
  have "drop (length fs - k) fs = tl fs" if "length fs = k + 1" for fs :: "FitCoefficients list"
    using that by (cases fs) simp_all
  with h show ?thesis by auto
qed

theorem history_bounded_fifo_witness:
  "length (fits_of [Update [1] [2] fit_a, Update [3] [4] fit_b, MarkUndetected, Update [] [] fit_c])
     = 2 + 1 \<and>
   history (fold apply_line_op
      [Update [1] [2] fit_a, Update [3] [4] fit_b, MarkUndetected, Update [] [] fit_c] (new_line 2))
     = [fit_b, fit_c] \<and>
   length (history (fold apply_line_op
      [Update [1] [2] fit_a, Update [3] [4] fit_b, MarkUndetected, Update [] [] fit_c] (new_line 2)))
     = 2"
  using history_bounded_fifo
    [of "[Update [1] [2] fit_a, Update [3] [4] fit_b, MarkUndetected, Update [] [] fit_c]" 2]
  by simp


end
